theory Spec2Isabelle
  imports Complex_Main
begin

section \<open>Numbers\<close>

text \<open>
  The source computes on JavaScript numbers. A finite number is modelled by an exact
  rational (\<^typ>\<open>rat\<close>), so \<open>0.005\<close> is \<open>5 / 1000\<close>; binary rounding of IEEE doubles
  and the infinities are not part of the model. Where the source tests \<open>isNaN\<close>, the
  not-a-number outcome is \<open>None\<close>.
\<close>

definition Math_floor :: "rat \<Rightarrow> rat" where
  "Math_floor x = of_int \<lfloor>x\<rfloor>"


section \<open>Bid calculators\<close>

subsection \<open>The Blur bidder: \<open>calculateBidWithMargin\<close>\<close>

definition PROFIT_MARGIN :: rat where
  "PROFIT_MARGIN = 5 / 1000"

text \<open>
  \<^verbatim>\<open>
  function calculateBidWithMargin(observedEth) {
    const raw = observedEth - PROFIT_MARGIN;
    if (raw <= 0) return 0;
    return Math.floor(raw * 100) / 100;
  }
  \<close>
  The result \<open>0\<close> is the "no bid" value: both callers return at \<open>bidEth <= 0\<close>.
\<close>

definition calculateBidWithMargin :: "rat \<Rightarrow> rat" where
  "calculateBidWithMargin observedEth =
     (let raw = observedEth - PROFIT_MARGIN
      in if raw \<le> 0 then 0 else Math_floor (raw * 100) / 100)"

subsection \<open>The bid manager: \<open>calculateBlurAmount\<close>, \<open>calculateOpenseaAmount\<close>\<close>

text \<open>
  The bid configuration holds strings (an environment variable or a default such as
  \<open>'0.005'\<close>). The operator \<open>-\<close> converts a string operand to a number; that conversion
  is the parameter \<open>toNumber\<close>, with \<open>None\<close> for NaN. The operator \<open>+\<close> with a string
  operand converts the other operand to a string and concatenates; that conversion is the
  parameter \<open>numToString\<close>.
\<close>

record blur_config =
  blur_minBidAmount :: string
  blur_maxBidAmount :: string
  blur_bidDeduction :: string
  blur_roundingPrecision :: string
  blur_gasCost :: string

record opensea_config =
  os_minBidAmount :: string
  os_maxBidAmount :: string
  os_bidDeduction :: string
  os_outbidAmount :: string
  os_gasCost :: string


text \<open>
  \<^verbatim>\<open>
  calculateOpenseaAmount(currentBid) {
    const amount = currentBid - config.bid.opensea.bidDeduction;
    return amount + config.bid.opensea.outbidAmount;
  }
  \<close>
  \<open>outbidAmount\<close> is a string, so the result is the text of \<open>amount\<close> followed by the
  text of the increment.
\<close>

definition calculateOpenseaAmount ::
  "(string \<Rightarrow> rat option) \<Rightarrow> (rat \<Rightarrow> string) \<Rightarrow> opensea_config \<Rightarrow> rat \<Rightarrow> string" where
  "calculateOpenseaAmount toNumber numToString cfg currentBid =
     (case toNumber (os_bidDeduction cfg) of
        None \<Rightarrow> ''NaN'' @ os_outbidAmount cfg
      | Some d \<Rightarrow> (let amount = currentBid - d in numToString amount @ os_outbidAmount cfg))"

subsection \<open>The OpenSea amount script: \<open>computeBidAmount\<close>\<close>



subsection \<open>The policy as the specification words it\<close>




section \<open>Strings and decimal text\<close>

text \<open>
  A string is a list of characters. \<open>String.prototype.trim\<close> removes white space at both
  ends; the model knows the ASCII white space characters (tab, line feed, vertical tab,
  form feed, carriage return, space).
\<close>

definition isWhiteSpace :: "char \<Rightarrow> bool" where
  "isWhiteSpace c = (c \<in> set [CHR 0x09, CHR 0x0A, CHR 0x0B, CHR 0x0C, CHR 0x0D, CHR '' ''])"

definition trim :: "string \<Rightarrow> string" where
  "trim s = rev (dropWhile isWhiteSpace (rev (dropWhile isWhiteSpace s)))"

definition startsWith :: "string \<Rightarrow> string \<Rightarrow> bool" where
  "startsWith s p = (take (length p) s = p)"

text \<open>\<open>key.split(":")\<close>: the pieces of \<open>key\<close> between colons.\<close>

fun split_colon :: "string \<Rightarrow> string list" where
  "split_colon [] = [[]]"
| "split_colon (c # cs) =
     (if c = CHR '':'' then [] # split_colon cs
      else (case split_colon cs of
              [] \<Rightarrow> [[c]]
            | piece # pieces \<Rightarrow> (c # piece) # pieces))"

text \<open>
  \<open>key.split(":")[i]\<close>. Where the key has fewer pieces JavaScript yields \<open>undefined\<close>,
  which a template string prints as the text \<open>undefined\<close>.
\<close>

definition split_at :: "string \<Rightarrow> nat \<Rightarrow> string" where
  "split_at key i =
     (let pieces = split_colon key
      in if i < length pieces then pieces ! i else ''undefined'')"

subsection \<open>\<open>toFixed(2)\<close>\<close>

definition digit_char :: "nat \<Rightarrow> char" where
  "digit_char d = char_of (48 + d)"

fun nat_digits :: "nat \<Rightarrow> string" where
  "nat_digits n = (if n < 10 then [digit_char n] else nat_digits (n div 10) @ [digit_char (n mod 10)])"

declare nat_digits.simps [simp del]

text \<open>
  \<open>x.toFixed(2)\<close>: with \<open>n\<close> the integer nearest to \<open>100 * |x|\<close> (the larger one at a
  tie), the digits of \<open>n div 100\<close>, a point, and the two digits of \<open>n mod 100\<close>, after a
  minus sign when \<open>x < 0\<close>. JavaScript switches to exponent notation from \<open>10^21\<close> on;
  the theorems that depend on the shape of the text are stated below that bound.
\<close>

definition toFixed2 :: "rat \<Rightarrow> string" where
  "toFixed2 x =
     (let n = nat \<lfloor>\<bar>x\<bar> * 100 + 1 / 2\<rfloor>
      in (if x < 0 then [CHR ''-''] else []) @ nat_digits (n div 100) @ [CHR ''.''] @
         [digit_char (n mod 100 div 10), digit_char (n mod 10)])"

subsection \<open>Reading plain decimal text\<close>

definition is_digit :: "char \<Rightarrow> bool" where
  "is_digit c = ((48 :: nat) \<le> of_char c \<and> (of_char c :: nat) \<le> 57)"

fun digits_value_acc :: "nat \<Rightarrow> string \<Rightarrow> nat option" where
  "digits_value_acc acc [] = Some acc"
| "digits_value_acc acc (c # cs) =
     (if is_digit c then digits_value_acc (acc * 10 + ((of_char c :: nat) - 48)) cs else None)"

definition digits_value :: "string \<Rightarrow> nat option" where
  "digits_value s = (if s = [] then None else digits_value_acc 0 s)"

text \<open>
  \<open>decimal_value\<close> reads digits, optionally followed by a point and digits, as the number
  they denote. On such text \<open>parseFloat\<close> and the conversion of a string to a number
  yield that number; they accept more (a sign, an exponent, blanks), which is why the
  functions of the source take them as parameters and \<open>decimal_value\<close> only instantiates
  them.
\<close>

definition decimal_value :: "string \<Rightarrow> rat option" where
  "decimal_value s =
     (let ip = takeWhile (\<lambda>c. c \<noteq> CHR ''.'') s;
          rest = dropWhile (\<lambda>c. c \<noteq> CHR ''.'') s
      in case rest of
           [] \<Rightarrow> map_option of_nat (digits_value ip)
         | _ # fp \<Rightarrow>
             (case (digits_value ip, digits_value fp) of
                (Some a, Some b) \<Rightarrow> Some (of_nat a + of_nat b / 10 ^ length fp)
              | _ \<Rightarrow> None))"


section \<open>The Blur bidder\<close>

subsection \<open>The shared store\<close>

text \<open>
  Redis holds string values under string keys; the model is an association list and its
  \<open>get\<close>, \<open>set\<close> and \<open>keys\<close> never fail. \<open>client.keys("prefix*")\<close> lists the keys that
  start with the prefix. The bidder's own bid for a contract is the value under
  \<open>Bid:Blur:<contract>\<close>: this is the ledger entry of the pair (contract, Blur).
  \<open>OS_PATTERN\<close> and \<open>BLUR_PATTERN\<close> of the source are the two prefixes below followed by
  a star.
\<close>

type_synonym store = "(string \<times> string) list"

definition redis_get :: "store \<Rightarrow> string \<Rightarrow> string option" where
  "redis_get db key = map_of db key"

fun redis_set :: "string \<Rightarrow> string \<Rightarrow> store \<Rightarrow> store" where
  "redis_set key v [] = [(key, v)]"
| "redis_set key v ((k, w) # db) =
     (if k = key then (key, v) # db else (k, w) # redis_set key v db)"




definition EXPIRE_MS :: nat where
  "EXPIRE_MS = 24 * 60 * 60 * 1000"

subsection \<open>The Blur API, the signer and the parsers\<close>

text \<open>
  What the bidder calls and does not define is a record of functions: the two JSON
  extractions with their \<open>isNaN\<close> tests (\<open>None\<close>: the \<open>catch\<close> branch is taken),
  \<open>parseFloat\<close> (\<open>None\<close>: NaN), the clock, the two posts to the Blur API (\<open>None\<close> and
  \<open>False\<close>: the request throws), \<open>BigInt(hex).toString()\<close> (\<open>None\<close>: it throws) and the
  wallet's \<open>signTypedData\<close> (\<open>None\<close>: it throws).
\<close>

datatype field_value = BigNumberHex string | Plain string

record sign_data =
  sd_domain :: string
  sd_types :: string
  sd_value :: "(string \<times> field_value) list"

record signature_obj =
  sig_marketplace :: string
  sig_signData :: sign_data
  sig_marketplaceData :: string

record bid_data =
  bd_contractAddress :: string
  bd_unit :: string
  bd_amount :: string
  bd_quantity :: nat
  bd_expirationTime :: nat

record submit_body =
  sb_bidData :: bid_data
  sb_marketplaceData :: string
  sb_signature :: string

record blur_api =
  json_readable :: "string \<Rightarrow> rat option"
  json_bestPrice :: "string \<Rightarrow> rat option"
  parseFloat :: "string \<Rightarrow> rat option"
  date_now :: nat
  post_format :: "bid_data \<Rightarrow> signature_obj list option"
  bigint_text :: "string \<Rightarrow> string option"
  signTypedData :: "string \<Rightarrow> string \<Rightarrow> (string \<times> field_value) list \<Rightarrow> string option"
  post_submit :: "submit_body \<Rightarrow> bool"

subsection \<open>State and observable actions\<close>

datatype marketplace = OpenSea | Blur

text \<open>
  The actions of a run, in order: the log lines, the posts to the Blur API and the writes
  to the store. \<open>Process\<close> records a call of \<open>processFromOpenSea\<close> or
  \<open>processFromBlur\<close>, which is how a change of a price signal reaches the bid logic.
\<close>

datatype action =
    Process marketplace string string
  | LogFirstTime marketplace string string
  | LogChanged marketplace string string string
  | LogMalformed marketplace string
  | LogMarginTooLarge marketplace string rat
  | LogUnchanged marketplace string rat
  | LogCancelOld marketplace string rat
  | LogNoPrior marketplace string rat
  | PostFormat bid_data
  | LogFormatFailed string
  | LogNoSignature string
  | LogSigningFailed string
  | PostSubmit submit_body
  | LogNewBid string rat string
  | RedisSet string string
  | LogSaved string string
  | LogSubmitFailed string
  | LogPollingError

record bidder =
  redis :: store
  lastSeenOpenSea :: "string \<rightharpoonup> string"
  lastSeenBlur :: "string \<rightharpoonup> string"
  actions :: "action list"

text \<open>An async function either returns or throws; the state it leaves is kept in both cases.\<close>

datatype 'a completion = Returns 'a | Throws 'a

fun state_of :: "'a completion \<Rightarrow> 'a" where
  "state_of (Returns s) = s"
| "state_of (Throws s) = s"

definition emit :: "action \<Rightarrow> bidder \<Rightarrow> bidder" where
  "emit a st = st\<lparr>actions := actions st @ [a]\<rparr>"

subsection \<open>\<open>submitNewBlurBid\<close>: format, sign, submit, store\<close>

text \<open>
  Step 3 of the source turns every field of \<open>signData.value\<close> that is an object with a
  string \<open>hex\<close> into the decimal text of that number and keeps the others; it is outside
  any \<open>try\<close>, so a throw of \<open>BigInt\<close> leaves \<open>submitNewBlurBid\<close>.
\<close>

fun normalize ::
  "(string \<Rightarrow> string option) \<Rightarrow> (string \<times> field_value) list \<Rightarrow> (string \<times> field_value) list option" where
  "normalize big [] = Some []"
| "normalize big ((k, BigNumberHex h) # kvs) =
     (case big h of
        None \<Rightarrow> None
      | Some d \<Rightarrow> map_option ((#) (k, Plain d)) (normalize big kvs))"
| "normalize big ((k, Plain x) # kvs) = map_option ((#) (k, Plain x)) (normalize big kvs)"

text \<open>The \<open>bidData\<close> object that \<open>submitNewBlurBid\<close> prepares.\<close>

definition new_bidData :: "blur_api \<Rightarrow> string \<Rightarrow> rat \<Rightarrow> bid_data" where
  "new_bidData api contract bidEth =
     \<lparr>bd_contractAddress = contract, bd_unit = ''BETH'',
      bd_amount = toFixed2 bidEth, bd_quantity = 1,
      bd_expirationTime = date_now api + EXPIRE_MS\<rparr>"

definition submitNewBlurBid ::
  "blur_api \<Rightarrow> string \<Rightarrow> rat \<Rightarrow> string \<Rightarrow> bidder \<Rightarrow> bidder completion" where
  "submitNewBlurBid api contract bidEth note st =
     (let bidData = new_bidData api contract bidEth;
          st1 = emit (PostFormat bidData) st
      in case post_format api bidData of
           None \<Rightarrow> Returns (emit (LogFormatFailed contract) st1)
         | Some signatures \<Rightarrow>
            (case find (\<lambda>s. sig_marketplace s = ''BLUR'') signatures of
               None \<Rightarrow> Returns (emit (LogNoSignature contract) st1)
             | Some sigObj \<Rightarrow>
                (case normalize (bigint_text api) (sd_value (sig_signData sigObj)) of
                   None \<Rightarrow> Throws st1
                 | Some normalized \<Rightarrow>
                    (case signTypedData api (sd_domain (sig_signData sigObj))
                            (sd_types (sig_signData sigObj)) normalized of
                       None \<Rightarrow> Returns (emit (LogSigningFailed contract) st1)
                     | Some signature \<Rightarrow>
                        (let body = \<lparr>sb_bidData = bidData,
                                      sb_marketplaceData = sig_marketplaceData sigObj,
                                      sb_signature = signature\<rparr>;
                             st2 = emit (PostSubmit body) st1
                         in if post_submit api body
                            then (let st3 = emit (LogNewBid contract bidEth note) st2;
                                      redisKey = ''Bid:Blur:'' @ contract;
                                      st4 = emit (RedisSet redisKey (toFixed2 bidEth))
                                              (st3\<lparr>redis := redis_set redisKey (toFixed2 bidEth) (redis st3)\<rparr>)
                                  in Returns (emit (LogSaved redisKey (toFixed2 bidEth)) st4))
                            else Returns (emit (LogSubmitFailed contract) st2))))))"

text \<open>
  The steps of the protocol by themselves, each fed with what the steps before it
  returned: the answer to the format request, the Blur entry among its signatures, the
  normalized value, the signature, and whether the submit request goes through. A step
  has no result when a step before it has none. These name what "a step fails" means;
  \<open>submitNewBlurBid\<close> above does not use them.
\<close>

definition step_format :: "blur_api \<Rightarrow> string \<Rightarrow> rat \<Rightarrow> signature_obj list option" where
  "step_format api contract bidEth = post_format api (new_bidData api contract bidEth)"

definition step_extract :: "blur_api \<Rightarrow> string \<Rightarrow> rat \<Rightarrow> signature_obj option" where
  "step_extract api contract bidEth =
     (case step_format api contract bidEth of
        None \<Rightarrow> None
      | Some signatures \<Rightarrow> find (\<lambda>s. sig_marketplace s = ''BLUR'') signatures)"

definition step_normalize ::
  "blur_api \<Rightarrow> string \<Rightarrow> rat \<Rightarrow> (string \<times> field_value) list option" where
  "step_normalize api contract bidEth =
     (case step_extract api contract bidEth of
        None \<Rightarrow> None
      | Some sigObj \<Rightarrow> normalize (bigint_text api) (sd_value (sig_signData sigObj)))"

definition step_sign :: "blur_api \<Rightarrow> string \<Rightarrow> rat \<Rightarrow> string option" where
  "step_sign api contract bidEth =
     (case (step_extract api contract bidEth, step_normalize api contract bidEth) of
        (Some sigObj, Some normalized) \<Rightarrow>
          signTypedData api (sd_domain (sig_signData sigObj)) (sd_types (sig_signData sigObj))
            normalized
      | _ \<Rightarrow> None)"

definition step_submit :: "blur_api \<Rightarrow> string \<Rightarrow> rat \<Rightarrow> bool" where
  "step_submit api contract bidEth =
     (case (step_extract api contract bidEth, step_sign api contract bidEth) of
        (Some sigObj, Some signature) \<Rightarrow>
          post_submit api
            \<lparr>sb_bidData = new_bidData api contract bidEth,
             sb_marketplaceData = sig_marketplaceData sigObj,
             sb_signature = signature\<rparr>
      | _ \<Rightarrow> False)"

subsection \<open>\<open>processFromOpenSea\<close> and \<open>processFromBlur\<close>\<close>

text \<open>
  \<open>oldBidVal\<close> is \<open>null\<close> when the store has no value or an empty one, and otherwise what
  \<open>parseFloat\<close> makes of it; the source only ever asks whether it is a number
  (\<open>oldBidVal !== null && !isNaN(oldBidVal)\<close>), so \<open>null\<close> and NaN are both \<open>None\<close>.
  Cancelling the old bid is a log line: the call to the Blur API is a TODO in the source.
\<close>

definition oldBidVal_of :: "blur_api \<Rightarrow> string option \<Rightarrow> rat option" where
  "oldBidVal_of api oldBidRaw =
     (case oldBidRaw of
        None \<Rightarrow> None
      | Some r \<Rightarrow> if r = [] then None else parseFloat api r)"

definition processFromOpenSea ::
  "blur_api \<Rightarrow> string \<Rightarrow> string \<Rightarrow> bidder \<Rightarrow> bidder completion" where
  "processFromOpenSea api contract rawJson st0 =
     (let st = emit (Process OpenSea contract rawJson) st0
      in case json_readable api rawJson of
           None \<Rightarrow> Returns (emit (LogMalformed OpenSea contract) st)
         | Some osOfferEth \<Rightarrow>
            (let bidEth = calculateBidWithMargin osOfferEth
             in if bidEth \<le> 0
                then Returns (emit (LogMarginTooLarge OpenSea contract osOfferEth) st)
                else (let redisKey = ''Bid:Blur:'' @ contract;
                          oldBidRaw = redis_get (redis st) redisKey;
                          oldBidVal = oldBidVal_of api oldBidRaw
                      in if oldBidVal = Some bidEth
                         then Returns (emit (LogUnchanged OpenSea contract bidEth) st)
                         else submitNewBlurBid api contract bidEth ''(triggered by OpenSea)''
                                (case oldBidVal of
                                   Some old \<Rightarrow> emit (LogCancelOld OpenSea contract old) st
                                 | None \<Rightarrow> emit (LogNoPrior OpenSea contract bidEth) st))))"

text \<open>
  The first \<open>try\<close> of \<open>processFromBlur\<close>: the price is \<open>bestPrice\<close> of the JSON when the
  trimmed text starts with a brace, and the text read as a number otherwise.
\<close>

definition blurBestPrice_of :: "blur_api \<Rightarrow> string \<Rightarrow> rat option" where
  "blurBestPrice_of api rawString =
     (if startsWith (trim rawString) ''{''
      then json_bestPrice api rawString else parseFloat api rawString)"

definition processFromBlur ::
  "blur_api \<Rightarrow> string \<Rightarrow> string \<Rightarrow> bidder \<Rightarrow> bidder completion" where
  "processFromBlur api contract rawString st0 =
     (let st = emit (Process Blur contract rawString) st0
      in case blurBestPrice_of api rawString of
           None \<Rightarrow> Returns (emit (LogMalformed Blur contract) st)
         | Some blurBestPrice \<Rightarrow>
            (let bidEth = calculateBidWithMargin blurBestPrice
             in if bidEth \<le> 0
                then Returns (emit (LogMarginTooLarge Blur contract blurBestPrice) st)
                else (let redisKey = ''Bid:Blur:'' @ contract;
                          oldBidRaw = redis_get (redis st) redisKey;
                          oldBidVal = oldBidVal_of api oldBidRaw
                      in if oldBidVal = Some bidEth
                         then Returns (emit (LogUnchanged Blur contract bidEth) st)
                         else submitNewBlurBid api contract bidEth ''(triggered by Blur)''
                                (case oldBidVal of
                                   Some old \<Rightarrow> emit (LogCancelOld Blur contract old) st
                                 | None \<Rightarrow> emit (LogNoPrior Blur contract bidEth) st))))"

subsection \<open>\<open>main\<close>: initial population and the polling loop\<close>



text \<open>
  Initial population, Blur keys: the trimmed value is remembered and logged;
  \<open>processFromBlur\<close> is not called.
\<close>

definition initBlurKey :: "string \<Rightarrow> bidder \<Rightarrow> bidder completion" where
  "initBlurKey key st =
     (let contract = split_at key 3
      in case redis_get (redis st) key of
           None \<Rightarrow> Returns st
         | Some raw \<Rightarrow>
            if raw = [] then Returns st
            else (let trimmed = trim raw;
                      st1 = st\<lparr>lastSeenBlur := (lastSeenBlur st)(contract \<mapsto> trimmed)\<rparr>
                  in Returns (emit (LogFirstTime Blur contract trimmed) st1)))"





text \<open>The calls of the two process functions among a list of actions.\<close>

fun is_Process :: "action \<Rightarrow> bool" where
  "is_Process (Process m c r) = True"
| "is_Process _ = False"

definition change_events :: "bidder \<Rightarrow> action list" where
  "change_events st = filter is_Process (actions st)"

text \<open>The calls of \<open>processFromBlur\<close> among the actions of a state.\<close>

fun is_Process_Blur :: "action \<Rightarrow> bool" where
  "is_Process_Blur (Process m c r) = (m = Blur)"
| "is_Process_Blur _ = False"

definition blur_events :: "bidder \<Rightarrow> action list" where
  "blur_events st = filter is_Process_Blur (actions st)"

section \<open>The bid manager\<close>

subsection \<open>The operation queue: \<open>addToQueue\<close> and \<open>#processQueue\<close>\<close>

text \<open>
  JavaScript runs one piece of code at a time and changes hands only at an \<open>await\<close>.
  The model therefore has two kinds of step: a call of \<open>addToQueue\<close>, which runs up to
  the first \<open>await\<close>, and the settling of an awaited operation (it resolved or it threw),
  which resumes \<open>#processQueue\<close> after \<open>await operation()\<close>. Besides the two private
  fields of the source the state keeps what can be observed: the operations that have
  been called and have not settled, the operations in the order they were called, and
  the operations whose error was logged.
\<close>

record 'op bid_manager =
  bidQueue :: "'op list"
  processingQueue :: bool
  inFlight :: "'op list"
  calledOps :: "'op list"
  loggedErrors :: "'op list"

definition new_BidManager :: "'op bid_manager" where
  "new_BidManager =
     \<lparr>bidQueue = [], processingQueue = False, inFlight = [], calledOps = [], loggedErrors = []\<rparr>"

text \<open>
  \<^verbatim>\<open>
  async #processQueue() {
    if (this.#bidQueue.length === 0) { this.#processingQueue = false; return; }
    this.#processingQueue = true;
    const operation = this.#bidQueue.shift();
    try { await operation(); } catch (error) { logger.error(...); }
    await this.#processQueue();
  }
  \<close>
  \<open>processQueue\<close> is the part up to \<open>await operation()\<close>; \<open>settle\<close> is the part after
  it, entered when the operation resolves (\<open>threw = False\<close>) or throws.
\<close>

definition processQueue :: "'op bid_manager \<Rightarrow> 'op bid_manager" where
  "processQueue m =
     (case bidQueue m of
        [] \<Rightarrow> m\<lparr>processingQueue := False\<rparr>
      | operation # rest \<Rightarrow>
          m\<lparr>processingQueue := True, bidQueue := rest,
            inFlight := inFlight m @ [operation], calledOps := calledOps m @ [operation]\<rparr>)"

definition settle :: "'op \<Rightarrow> bool \<Rightarrow> 'op bid_manager \<Rightarrow> 'op bid_manager" where
  "settle operation threw m =
     (let m1 = m\<lparr>inFlight := remove1 operation (inFlight m)\<rparr>;
          m2 = (if threw then m1\<lparr>loggedErrors := loggedErrors m1 @ [operation]\<rparr> else m1)
      in processQueue m2)"

text \<open>
  \<^verbatim>\<open>
  async addToQueue(operation) {
    this.#bidQueue.push(operation);
    if (!this.#processingQueue) { await this.#processQueue(); }
  }
  \<close>
\<close>

definition addToQueue :: "'op \<Rightarrow> 'op bid_manager \<Rightarrow> 'op bid_manager" where
  "addToQueue operation m =
     (let m1 = m\<lparr>bidQueue := bidQueue m @ [operation]\<rparr>
      in if \<not> processingQueue m1 then processQueue m1 else m1)"

datatype 'op queue_event = Enqueue 'op | Settled 'op bool

text \<open>An operation that is not in flight cannot settle: such an event changes nothing.\<close>

fun queue_step :: "'op bid_manager \<Rightarrow> 'op queue_event \<Rightarrow> 'op bid_manager" where
  "queue_step m (Enqueue operation) = addToQueue operation m"
| "queue_step m (Settled operation threw) =
     (if operation \<in> set (inFlight m) then settle operation threw m else m)"

definition queue_run :: "'op queue_event list \<Rightarrow> 'op bid_manager" where
  "queue_run events = foldl queue_step new_BidManager events"

fun enqueued :: "'op queue_event list \<Rightarrow> 'op list" where
  "enqueued [] = []"
| "enqueued (Enqueue operation # events) = operation # enqueued events"
| "enqueued (Settled operation threw # events) = enqueued events"

text \<open>
  Draining: with no further call of \<open>addToQueue\<close>, the operation in flight settles
  (\<open>threw\<close> says how), \<open>#processQueue\<close> calls the next one, and so on.
\<close>

function drain :: "('op \<Rightarrow> bool) \<Rightarrow> 'op bid_manager \<Rightarrow> 'op bid_manager" where
  "drain threw m =
     (case inFlight m of
        [] \<Rightarrow> m
      | operation # others \<Rightarrow> drain threw (settle operation (threw operation) m))"
  by pat_completeness auto
termination
  by (relation "measure (\<lambda>(threw, m). 2 * length (bidQueue m) + length (inFlight m))")
     (auto simp: settle_def processQueue_def Let_def split: list.splits)

declare drain.simps [simp del]

text \<open>The number of settlings that \<open>drain\<close> goes through.\<close>

function drain_steps :: "('op \<Rightarrow> bool) \<Rightarrow> 'op bid_manager \<Rightarrow> nat" where
  "drain_steps threw m =
     (case inFlight m of
        [] \<Rightarrow> 0
      | operation # others \<Rightarrow> Suc (drain_steps threw (settle operation (threw operation) m)))"
  by pat_completeness auto
termination
  by (relation "measure (\<lambda>(threw, m). 2 * length (bidQueue m) + length (inFlight m))")
     (auto simp: settle_def processQueue_def Let_def split: list.splits)

declare drain_steps.simps [simp del]

subsection \<open>\<open>NftBid\<close>\<close>

datatype bid_status = Pending | Active | Cancelled | Invalid

text \<open>
  The fields of \<open>NftBid\<close> that the storage and the manager read. \<open>tokenId\<close> and
  \<open>signature\<close> stay \<open>null\<close> in every bid the manager creates and are left out. The
  platform is \<open>'blur'\<close> or \<open>'opensea'\<close>.
\<close>

record nft_bid =
  nb_collection :: string
  nb_platform :: marketplace
  nb_amount :: rat
  nb_expirationTime :: nat
  nb_nonce :: string
  nb_createdAt :: nat
  nb_status :: bid_status

text \<open>
  \<open>new NftBid({collection, platform, amount})\<close> at the time \<open>now\<close> (milliseconds), with
  \<open>nonce\<close> the random nonce drawn by \<open>generateNonce\<close>. The constructor sets the status to
  \<open>'pending'\<close>, whatever it is given.
\<close>

definition new_NftBid :: "string \<Rightarrow> marketplace \<Rightarrow> rat \<Rightarrow> nat \<Rightarrow> string \<Rightarrow> nft_bid" where
  "new_NftBid collection platform amount now nonce =
     \<lparr>nb_collection = collection, nb_platform = platform, nb_amount = amount,
      nb_expirationTime = now div 1000 + 86400, nb_nonce = nonce, nb_createdAt = now,
      nb_status = Pending\<rparr>"

datatype bid_error =
    InvalidCollectionAddress
  | InvalidBidAmount
  | BidAmountOutOfBounds
  | BidAlreadyExpired
  | NoBidsForCollection
  | BidNotFound
  | PlatformRequestFailed

record bid_config =
  cfg_blur :: blur_config
  cfg_opensea :: opensea_config

text \<open>
  What \<open>validate\<close> and the operations take from outside: \<open>ethers.isAddress\<close>,
  \<open>parseFloat\<close> (\<open>None\<close>: NaN) and the configuration.
\<close>

record bid_env =
  isAddress :: "string \<Rightarrow> bool"
  env_parseFloat :: "string \<Rightarrow> rat option"
  env_config :: bid_config

definition minBidAmount_of :: "bid_config \<Rightarrow> marketplace \<Rightarrow> string" where
  "minBidAmount_of cfg platform =
     (case platform of Blur \<Rightarrow> blur_minBidAmount (cfg_blur cfg)
                     | OpenSea \<Rightarrow> os_minBidAmount (cfg_opensea cfg))"

definition maxBidAmount_of :: "bid_config \<Rightarrow> marketplace \<Rightarrow> string" where
  "maxBidAmount_of cfg platform =
     (case platform of Blur \<Rightarrow> blur_maxBidAmount (cfg_blur cfg)
                     | OpenSea \<Rightarrow> os_maxBidAmount (cfg_opensea cfg))"

text \<open>
  \<open>validate\<close>: \<open>None\<close> when it returns \<open>true\<close>, the error when it throws. A comparison
  with NaN is false, so a bound that does not parse rejects nothing.
\<close>

definition validate :: "bid_env \<Rightarrow> nat \<Rightarrow> nft_bid \<Rightarrow> bid_error option" where
  "validate env now bid =
     (if \<not> isAddress env (nb_collection bid) then Some InvalidCollectionAddress
      else if nb_amount bid \<le> 0 then Some InvalidBidAmount
      else (let minBid = env_parseFloat env (minBidAmount_of (env_config env) (nb_platform bid));
                maxBid = env_parseFloat env (maxBidAmount_of (env_config env) (nb_platform bid));
                below = (case minBid of None \<Rightarrow> False | Some lo \<Rightarrow> nb_amount bid < lo);
                above = (case maxBid of None \<Rightarrow> False | Some hi \<Rightarrow> nb_amount bid > hi)
            in if below \<or> above then Some BidAmountOutOfBounds
               else if nb_expirationTime bid \<le> now div 1000 then Some BidAlreadyExpired
               else None))"

subsection \<open>\<open>BidStorage\<close>: the ledger of the bid manager\<close>

text \<open>
  \<open>this.bids\<close> maps a collection to its Blur bids and its OpenSea bids; the ledger entry
  of the key (collection, platform) is that list. Writing the JSON file (\<open>saveBids\<close>) is
  not modelled.
\<close>

record platform_bids =
  pb_blur :: "nft_bid list"
  pb_opensea :: "nft_bid list"

type_synonym bid_storage = "string \<rightharpoonup> platform_bids"

definition bids_on :: "platform_bids \<Rightarrow> marketplace \<Rightarrow> nft_bid list" where
  "bids_on pb platform = (case platform of Blur \<Rightarrow> pb_blur pb | OpenSea \<Rightarrow> pb_opensea pb)"

definition set_bids_on :: "marketplace \<Rightarrow> nft_bid list \<Rightarrow> platform_bids \<Rightarrow> platform_bids" where
  "set_bids_on platform bs pb =
     (case platform of Blur \<Rightarrow> pb\<lparr>pb_blur := bs\<rparr> | OpenSea \<Rightarrow> pb\<lparr>pb_opensea := bs\<rparr>)"

definition addBid :: "bid_env \<Rightarrow> nat \<Rightarrow> nft_bid \<Rightarrow> bid_storage \<Rightarrow> bid_error + bid_storage" where
  "addBid env now bid bids =
     (case validate env now bid of
        Some e \<Rightarrow> Inl e
      | None \<Rightarrow>
          (let collectionBids =
                 (case bids (nb_collection bid) of
                    None \<Rightarrow> \<lparr>pb_blur = [], pb_opensea = []\<rparr>
                  | Some pb \<Rightarrow> pb);
               pushed = set_bids_on (nb_platform bid)
                          (bids_on collectionBids (nb_platform bid) @ [bid]) collectionBids
           in Inr (bids(nb_collection bid \<mapsto> pushed))))"

text \<open>\<open>findIndex((b) => b.nonce === nonce)\<close>: the first position with that nonce.\<close>

fun findIndex_nonce :: "string \<Rightarrow> nft_bid list \<Rightarrow> nat option" where
  "findIndex_nonce nonce [] = None"
| "findIndex_nonce nonce (b # bs) =
     (if nb_nonce b = nonce then Some 0 else map_option Suc (findIndex_nonce nonce bs))"

definition updateBid :: "bid_env \<Rightarrow> nat \<Rightarrow> nft_bid \<Rightarrow> bid_storage \<Rightarrow> bid_error + bid_storage" where
  "updateBid env now bid bids =
     (case validate env now bid of
        Some e \<Rightarrow> Inl e
      | None \<Rightarrow>
          (case bids (nb_collection bid) of
             None \<Rightarrow> Inl NoBidsForCollection
           | Some collectionBids \<Rightarrow>
               (let platformBids = bids_on collectionBids (nb_platform bid)
                in case findIndex_nonce (nb_nonce bid) platformBids of
                     None \<Rightarrow> Inl BidNotFound
                   | Some index \<Rightarrow>
                       Inr (bids(nb_collection bid \<mapsto>
                              set_bids_on (nb_platform bid) (platformBids[index := bid])
                                collectionBids)))))"

text \<open>\<open>splice(index, 1)\<close> removes the element at \<open>index\<close>.\<close>

definition removeBid :: "string \<Rightarrow> marketplace \<Rightarrow> string \<Rightarrow> bid_storage \<Rightarrow> bid_error + bid_storage" where
  "removeBid collection platform nonce bids =
     (case bids collection of
        None \<Rightarrow> Inl NoBidsForCollection
      | Some collectionBids \<Rightarrow>
          (let platformBids = bids_on collectionBids platform
           in case findIndex_nonce nonce platformBids of
                None \<Rightarrow> Inl BidNotFound
              | Some index \<Rightarrow>
                  Inr (bids(collection \<mapsto>
                         set_bids_on platform (take index platformBids @ drop (Suc index) platformBids)
                           collectionBids))))"

definition getBids :: "bid_storage \<Rightarrow> string \<Rightarrow> marketplace \<Rightarrow> nft_bid list" where
  "getBids bids collection platform =
     (case bids collection of
        None \<Rightarrow> []
      | Some collectionBids \<Rightarrow> bids_on collectionBids platform)"

definition is_active_at :: "nat \<Rightarrow> nft_bid \<Rightarrow> bool" where
  "is_active_at now bid = (nb_status bid = Active \<and> nb_expirationTime bid > now div 1000)"

definition getActiveBids :: "bid_storage \<Rightarrow> string \<Rightarrow> marketplace \<Rightarrow> nat \<Rightarrow> nft_bid list" where
  "getActiveBids bids collection platform now =
     filter (is_active_at now) (getBids bids collection platform)"

subsection \<open>\<open>submitBid\<close> and \<open>cancelBid\<close>: the queued operations\<close>

text \<open>
  What one run of an operation meets: the clock, the nonce that \<open>generateNonce\<close> draws,
  and whether the request to the platform goes through (\<open>submitPlatformBid\<close> throws
  otherwise; \<open>cancelPlatformBid\<close> is an empty function in the source and never throws).
\<close>

record op_run =
  run_now :: nat
  run_nonce :: string
  run_platform_ok :: bool

text \<open>
  The first element that passes a filter is the object itself, not a copy: assigning to
  \<open>existingBid.amount\<close> changes the bid inside the storage, before \<open>updateBid\<close> validates
  it. \<open>set_first_active_amount\<close> is that assignment.
\<close>

fun set_first_active_amount :: "nat \<Rightarrow> rat \<Rightarrow> nft_bid list \<Rightarrow> nft_bid list" where
  "set_first_active_amount now amount [] = []"
| "set_first_active_amount now amount (b # bs) =
     (if is_active_at now b then b\<lparr>nb_amount := amount\<rparr> # bs
      else b # set_first_active_amount now amount bs)"

definition submitBid_operation ::
  "bid_env \<Rightarrow> marketplace \<Rightarrow> string \<Rightarrow> rat \<Rightarrow> op_run \<Rightarrow> bid_storage \<Rightarrow> bid_storage completion" where
  "submitBid_operation env platform collection amount r bids =
     (let bid = new_NftBid collection platform amount (run_now r) (run_nonce r);
          existingBids = getActiveBids bids collection platform (run_now r)
      in case existingBids of
           existingBid # others \<Rightarrow>
             if nb_amount existingBid \<noteq> amount
             then (case bids collection of
                     None \<Rightarrow> Throws bids
                   | Some collectionBids \<Rightarrow>
                       (let assigned = bids(collection \<mapsto>
                              set_bids_on platform
                                (set_first_active_amount (run_now r) amount
                                   (bids_on collectionBids platform))
                                collectionBids)
                        in case updateBid env (run_now r) (existingBid\<lparr>nb_amount := amount\<rparr>) assigned of
                             Inl e \<Rightarrow> Throws assigned
                           | Inr bids' \<Rightarrow> Returns bids'))
             else Returns bids
         | [] \<Rightarrow>
             if \<not> run_platform_ok r then Throws bids
             else (case addBid env (run_now r) bid bids of
                     Inl e \<Rightarrow> Throws bids
                   | Inr bids' \<Rightarrow> Returns bids'))"

definition cancelBid_operation ::
  "marketplace \<Rightarrow> string \<Rightarrow> string \<Rightarrow> bid_storage \<Rightarrow> bid_storage completion" where
  "cancelBid_operation platform collection nonce bids =
     (case removeBid collection platform nonce bids of
        Inl e \<Rightarrow> Throws bids
      | Inr bids' \<Rightarrow> Returns bids')"

text \<open>
  The queue runs the operations one after the other and catches what they throw, so the
  ledger after a sequence of operations is the ledger after each in turn.
\<close>

datatype ledger_op =
    SubmitBid marketplace string rat op_run
  | CancelBid marketplace string string

fun run_ledger_op :: "bid_env \<Rightarrow> bid_storage \<Rightarrow> ledger_op \<Rightarrow> bid_storage" where
  "run_ledger_op env bids (SubmitBid platform collection amount r) =
     state_of (submitBid_operation env platform collection amount r bids)"
| "run_ledger_op env bids (CancelBid platform collection nonce) =
     state_of (cancelBid_operation platform collection nonce bids)"

definition run_ledger_ops :: "bid_env \<Rightarrow> ledger_op list \<Rightarrow> bid_storage" where
  "run_ledger_ops env ops = foldl (run_ledger_op env) Map.empty ops"

text \<open>The bids of a key that have not reached a final status.\<close>

definition open_bids :: "bid_storage \<Rightarrow> string \<Rightarrow> marketplace \<Rightarrow> nft_bid list" where
  "open_bids bids collection platform =
     filter (\<lambda>b. nb_status b = Pending \<or> nb_status b = Active) (getBids bids collection platform)"

section \<open>Sample configuration\<close>

text \<open>The defaults that \<open>config.js\<close> uses when the environment sets nothing.\<close>

definition default_blur_config :: blur_config where
  "default_blur_config =
     \<lparr>blur_minBidAmount = ''0.01'', blur_maxBidAmount = ''100'', blur_bidDeduction = ''0.005'',
      blur_roundingPrecision = ''0.01'', blur_gasCost = ''0.001''\<rparr>"

definition default_opensea_config :: opensea_config where
  "default_opensea_config =
     \<lparr>os_minBidAmount = ''0.01'', os_maxBidAmount = ''100'', os_bidDeduction = ''0.005'',
      os_outbidAmount = ''0.00001'', os_gasCost = ''0.001''\<rparr>"

definition default_bid_config :: bid_config where
  "default_bid_config = \<lparr>cfg_blur = default_blur_config, cfg_opensea = default_opensea_config\<rparr>"

section \<open>Sample inputs\<close>

text \<open>
  Concrete inputs on which the model is run below. The OpenSea payload is the JSON text
  \<open>{"price_per_nft":{"readable":"<price>"}}\<close>; the sample extraction knows the payloads
  for the prices \<open>0.004\<close> and \<open>0.20\<close>. A Blur value is the bare price text.
\<close>

definition quoted :: "string \<Rightarrow> string" where
  "quoted s = CHR 0x22 # s @ [CHR 0x22]"

definition sample_os_payload :: "string \<Rightarrow> string" where
  "sample_os_payload price_text =
     ''{'' @ quoted ''price_per_nft'' @ '':{'' @ quoted ''readable'' @ '':'' @
     quoted price_text @ ''}}''"

definition sample_json_readable :: "string \<Rightarrow> rat option" where
  "sample_json_readable raw =
     (if raw = sample_os_payload ''0.004'' then Some (4 / 1000)
      else if raw = sample_os_payload ''0.20'' then Some (20 / 100)
      else None)"

definition sample_signature_obj :: signature_obj where
  "sample_signature_obj =
     \<lparr>sig_marketplace = ''BLUR'',
      sig_signData = \<lparr>sd_domain = ''domain'', sd_types = ''types'',
                      sd_value = [(''trader'', Plain ''0xwallet''),
                                  (''nonce'', BigNumberHex ''0x0a'')]\<rparr>,
      sig_marketplaceData = ''data''\<rparr>"

text \<open>An API and signer for which every step goes through.\<close>

definition sample_api :: blur_api where
  "sample_api =
     \<lparr>json_readable = sample_json_readable,
      json_bestPrice = (\<lambda>raw. None),
      parseFloat = decimal_value,
      date_now = 1000,
      post_format = (\<lambda>bidData. Some [sample_signature_obj]),
      bigint_text = (\<lambda>hex. if hex = ''0x0a'' then Some ''10'' else None),
      signTypedData = (\<lambda>domain types v. Some ''0xsigned''),
      post_submit = (\<lambda>body. True)\<rparr>"

text \<open>A bidder whose ledger holds a bid of \<open>0.19\<close> for the contract \<open>0xabc\<close>.\<close>

definition sample_bidder :: bidder where
  "sample_bidder =
     \<lparr>redis = [(''Bid:Blur:0xabc'', ''0.19'')],
      lastSeenOpenSea = Map.empty, lastSeenBlur = Map.empty, actions = []\<rparr>"


text \<open>
  A collection address, an environment of the bid manager with the default configuration
  that accepts that address, and two runs of an operation, one second apart, in which the
  request to the platform goes through.
\<close>

definition sample_collection :: string where
  "sample_collection = ''0xb6a37b5d14d502c3ab0ae6f3a0e058bc9517786e''"

definition sample_bid_env :: bid_env where
  "sample_bid_env =
     \<lparr>isAddress = (\<lambda>address. address = sample_collection),
      env_parseFloat = decimal_value,
      env_config = default_bid_config\<rparr>"

definition first_run :: op_run where
  "first_run = \<lparr>run_now = 1000, run_nonce = ''0x01'', run_platform_ok = True\<rparr>"

definition second_run :: op_run where
  "second_run = \<lparr>run_now = 2000, run_nonce = ''0x02'', run_platform_ok = True\<rparr>"

section \<open>Invariants used in the proofs\<close>

text \<open>
  What holds of the queue in every state that calls of \<open>addToQueue\<close> and settlings of
  operations lead to: at most one operation is in flight, the flag is set exactly when
  one is, and operations wait only while the flag is set.
\<close>

definition queue_ok :: "'op bid_manager \<Rightarrow> bool" where
  "queue_ok m =
     (length (inFlight m) \<le> 1 \<and>
      processingQueue m = (inFlight m \<noteq> []) \<and>
      (processingQueue m \<or> bidQueue m = []))"

text \<open>Every bid in the storage has the status \<open>'pending'\<close>.\<close>

definition all_pending :: "bid_storage \<Rightarrow> bool" where
  "all_pending bids =
     (\<forall>collection platform. list_all (\<lambda>b. nb_status b = Pending) (getBids bids collection platform))"

section \<open>Properties of the bid calculators\<close>







lemma calculateBidWithMargin_nonpos:
  "p - PROFIT_MARGIN \<le> 0 \<Longrightarrow> calculateBidWithMargin p = 0"
  by (simp add: calculateBidWithMargin_def Let_def)




text \<open>
  \<open>calculateOpenseaAmount\<close> neither caps nor rounds: its result is the text of the bid
  less the deduction, followed by the text of the configured increment.
\<close>

lemma calculateOpenseaAmount_concatenates:
  "toNumber (os_bidDeduction cfg) = Some d \<Longrightarrow>
   calculateOpenseaAmount toNumber numToString cfg currentBid =
     numToString (currentBid - d) @ os_outbidAmount cfg"
  by (simp add: calculateOpenseaAmount_def Let_def)








section \<open>Properties of the Blur bidder\<close>

subsection \<open>What the steps leave unchanged\<close>

lemma redis_emit [simp]: "redis (emit a st) = redis st"
  by (simp add: emit_def)

lemma lastSeenOpenSea_emit [simp]: "lastSeenOpenSea (emit a st) = lastSeenOpenSea st"
  by (simp add: emit_def)

lemma lastSeenBlur_emit [simp]: "lastSeenBlur (emit a st) = lastSeenBlur st"
  by (simp add: emit_def)

lemma actions_emit [simp]: "actions (emit a st) = actions st @ [a]"
  by (simp add: emit_def)

lemma change_events_emit [simp]:
  "change_events (emit a st) = change_events st @ (if is_Process a then [a] else [])"
  by (simp add: change_events_def)

lemma change_events_redis_update [simp]:
  "change_events (st\<lparr>redis := r\<rparr>) = change_events st"
  by (simp add: change_events_def)

lemma change_events_lastSeenOpenSea_update [simp]:
  "change_events (st\<lparr>lastSeenOpenSea := l\<rparr>) = change_events st"
  by (simp add: change_events_def)

lemma change_events_lastSeenBlur_update [simp]:
  "change_events (st\<lparr>lastSeenBlur := l\<rparr>) = change_events st"
  by (simp add: change_events_def)

lemma submitNewBlurBid_redis:
  "redis (state_of (submitNewBlurBid api contract bidEth note st)) =
     (if step_submit api contract bidEth
      then redis_set (''Bid:Blur:'' @ contract) (toFixed2 bidEth) (redis st)
      else redis st)"
  by (simp add: submitNewBlurBid_def step_submit_def step_sign_def step_normalize_def
      step_extract_def step_format_def Let_def split: option.splits)


lemma submitNewBlurBid_lastSeenOpenSea:
  "lastSeenOpenSea (state_of (submitNewBlurBid api contract bidEth note st)) = lastSeenOpenSea st"
  by (simp add: submitNewBlurBid_def Let_def split: option.splits)

lemma submitNewBlurBid_lastSeenBlur:
  "lastSeenBlur (state_of (submitNewBlurBid api contract bidEth note st)) = lastSeenBlur st"
  by (simp add: submitNewBlurBid_def Let_def split: option.splits)




lemma processFromOpenSea_lastSeenBlur:
  "lastSeenBlur (state_of (processFromOpenSea api contract raw st)) = lastSeenBlur st"
  by (simp add: processFromOpenSea_def Let_def submitNewBlurBid_lastSeenBlur
      split: option.splits)

lemma processFromBlur_lastSeenOpenSea:
  "lastSeenOpenSea (state_of (processFromBlur api contract raw st)) = lastSeenOpenSea st"
  by (simp add: processFromBlur_def Let_def submitNewBlurBid_lastSeenOpenSea
      split: option.splits)




lemma step_submit_needs_format:
  "step_format api contract bidEth = None \<Longrightarrow> \<not> step_submit api contract bidEth"
  by (simp add: step_submit_def step_extract_def)

lemma step_submit_needs_extract:
  "step_extract api contract bidEth = None \<Longrightarrow> \<not> step_submit api contract bidEth"
  by (simp add: step_submit_def)

lemma step_submit_needs_normalize:
  "step_normalize api contract bidEth = None \<Longrightarrow> \<not> step_submit api contract bidEth"
  by (simp add: step_submit_def step_sign_def split: option.splits)

lemma step_submit_needs_sign:
  "step_sign api contract bidEth = None \<Longrightarrow> \<not> step_submit api contract bidEth"
  by (simp add: step_submit_def split: option.splits)

subsection \<open>The ledger is written only after a successful submit\<close>

text \<open>
  Claim C5. If a step of the submission protocol fails (the format request, the
  extraction of the Blur signature, the normalization it feeds, the signing, the submit
  request), the store after \<open>submitNewBlurBid\<close> is the store before it, so the ledger
  entry of the key is what it was; the store is written only when the submit request went
  through, and then the entry of the key is the new amount.
\<close>

theorem C5_ledger_written_only_after_submit:
  assumes "submitNewBlurBid api contract bidEth note st = result"
  shows
    "(step_format api contract bidEth = None \<longrightarrow> redis (state_of result) = redis st) \<and>
     (step_extract api contract bidEth = None \<longrightarrow> redis (state_of result) = redis st) \<and>
     (step_normalize api contract bidEth = None \<longrightarrow> redis (state_of result) = redis st) \<and>
     (step_sign api contract bidEth = None \<longrightarrow> redis (state_of result) = redis st) \<and>
     (\<not> step_submit api contract bidEth \<longrightarrow> redis (state_of result) = redis st) \<and>
     (redis (state_of result) \<noteq> redis st \<longrightarrow> step_submit api contract bidEth) \<and>
     (step_submit api contract bidEth \<longrightarrow>
        redis (state_of result) =
          redis_set (''Bid:Blur:'' @ contract) (toFixed2 bidEth) (redis st))"
proof -
  have r: "redis (state_of result) =
             (if step_submit api contract bidEth
              then redis_set (''Bid:Blur:'' @ contract) (toFixed2 bidEth) (redis st)
              else redis st)"
    unfolding assms [symmetric] by (rule submitNewBlurBid_redis)
  show ?thesis
    using step_submit_needs_format [of api contract bidEth]
      step_submit_needs_extract [of api contract bidEth]
      step_submit_needs_normalize [of api contract bidEth]
      step_submit_needs_sign [of api contract bidEth]
    by (auto simp: r)
qed

theorem C5_ledger_written_only_after_submit_witness:
  "redis (state_of (submitNewBlurBid (sample_api\<lparr>post_format := \<lambda>bidData. None\<rparr>)
            ''0xabc'' (29 / 100) ''n'' sample_bidder)) = [(''Bid:Blur:0xabc'', ''0.19'')] \<and>
   redis (state_of (submitNewBlurBid (sample_api\<lparr>post_format := \<lambda>bidData. Some []\<rparr>)
            ''0xabc'' (29 / 100) ''n'' sample_bidder)) = [(''Bid:Blur:0xabc'', ''0.19'')] \<and>
   redis (state_of (submitNewBlurBid (sample_api\<lparr>bigint_text := \<lambda>hex. None\<rparr>)
            ''0xabc'' (29 / 100) ''n'' sample_bidder)) = [(''Bid:Blur:0xabc'', ''0.19'')] \<and>
   redis (state_of (submitNewBlurBid (sample_api\<lparr>signTypedData := \<lambda>domain types v. None\<rparr>)
            ''0xabc'' (29 / 100) ''n'' sample_bidder)) = [(''Bid:Blur:0xabc'', ''0.19'')] \<and>
   redis (state_of (submitNewBlurBid (sample_api\<lparr>post_submit := \<lambda>body. False\<rparr>)
            ''0xabc'' (29 / 100) ''n'' sample_bidder)) = [(''Bid:Blur:0xabc'', ''0.19'')] \<and>
   redis (state_of (submitNewBlurBid sample_api
            ''0xabc'' (29 / 100) ''n'' sample_bidder)) = [(''Bid:Blur:0xabc'', ''0.29'')]"
proof -
  have before: "redis sample_bidder = [(''Bid:Blur:0xabc'', ''0.19'')]"
    by (simp add: sample_bidder_def)
  have amount: "toFixed2 (29 / 100) = ''0.29''"
    by code_simp
  have f1: "step_format (sample_api\<lparr>post_format := \<lambda>bidData. None\<rparr>) ''0xabc'' (29 / 100) = None"
    by (simp add: step_format_def)
  have f2: "step_extract (sample_api\<lparr>post_format := \<lambda>bidData. Some []\<rparr>) ''0xabc'' (29 / 100) = None"
    by (simp add: step_extract_def step_format_def)
  have f3: "step_normalize (sample_api\<lparr>bigint_text := \<lambda>hex. None\<rparr>) ''0xabc'' (29 / 100) = None"
    by (simp add: step_normalize_def step_extract_def step_format_def sample_api_def
        sample_signature_obj_def)
  have f4: "step_sign (sample_api\<lparr>signTypedData := \<lambda>domain types v. None\<rparr>) ''0xabc'' (29 / 100)
              = None"
    by (simp add: step_sign_def split: option.splits)
  have f5: "\<not> step_submit (sample_api\<lparr>post_submit := \<lambda>body. False\<rparr>) ''0xabc'' (29 / 100)"
    by (simp add: step_submit_def split: option.splits)
  have f6: "step_submit sample_api ''0xabc'' (29 / 100)"
    by (simp add: step_submit_def step_sign_def step_normalize_def step_extract_def
        step_format_def sample_api_def sample_signature_obj_def)
  have g1: "redis (state_of (submitNewBlurBid (sample_api\<lparr>post_format := \<lambda>bidData. None\<rparr>)
              ''0xabc'' (29 / 100) ''n'' sample_bidder)) = redis sample_bidder"
    using C5_ledger_written_only_after_submit [OF refl,
        of "sample_api\<lparr>post_format := \<lambda>bidData. None\<rparr>" "''0xabc''" "29 / 100" "''n''" sample_bidder] f1
    by simp
  have g2: "redis (state_of (submitNewBlurBid (sample_api\<lparr>post_format := \<lambda>bidData. Some []\<rparr>)
              ''0xabc'' (29 / 100) ''n'' sample_bidder)) = redis sample_bidder"
    using C5_ledger_written_only_after_submit [OF refl,
        of "sample_api\<lparr>post_format := \<lambda>bidData. Some []\<rparr>" "''0xabc''" "29 / 100" "''n''" sample_bidder] f2
    by simp
  have g3: "redis (state_of (submitNewBlurBid (sample_api\<lparr>bigint_text := \<lambda>hex. None\<rparr>)
              ''0xabc'' (29 / 100) ''n'' sample_bidder)) = redis sample_bidder"
    using C5_ledger_written_only_after_submit [OF refl,
        of "sample_api\<lparr>bigint_text := \<lambda>hex. None\<rparr>" "''0xabc''" "29 / 100" "''n''" sample_bidder] f3
    by simp
  have g4: "redis (state_of (submitNewBlurBid (sample_api\<lparr>signTypedData := \<lambda>domain types v. None\<rparr>)
              ''0xabc'' (29 / 100) ''n'' sample_bidder)) = redis sample_bidder"
    using C5_ledger_written_only_after_submit [OF refl,
        of "sample_api\<lparr>signTypedData := \<lambda>domain types v. None\<rparr>" "''0xabc''" "29 / 100" "''n''" sample_bidder] f4
    by simp
  have g5: "redis (state_of (submitNewBlurBid (sample_api\<lparr>post_submit := \<lambda>body. False\<rparr>)
              ''0xabc'' (29 / 100) ''n'' sample_bidder)) = redis sample_bidder"
    using C5_ledger_written_only_after_submit [OF refl,
        of "sample_api\<lparr>post_submit := \<lambda>body. False\<rparr>" "''0xabc''" "29 / 100" "''n''" sample_bidder] f5
    by simp
  have g6: "redis (state_of (submitNewBlurBid sample_api
              ''0xabc'' (29 / 100) ''n'' sample_bidder)) =
            redis_set (''Bid:Blur:'' @ ''0xabc'') (toFixed2 (29 / 100)) (redis sample_bidder)"
    using C5_ledger_written_only_after_submit [OF refl,
        of sample_api "''0xabc''" "29 / 100" "''n''" sample_bidder] f6
    by simp
  show ?thesis
    unfolding g1 g2 g3 g4 g5 g6 by (simp add: before amount)
qed

subsection \<open>A cap that is not positive\<close>

text \<open>
  Claim C3, as the specification states it: when the reference price less the margin is
  not positive the calculator returns none and, if the ledger has an entry for the key,
  a cancel of it is the only operation issued. With a ledger entry of \<open>0.19\<close> for the
  contract and an OpenSea price of \<open>0.004\<close>, \<open>processFromOpenSea\<close> logs that the margin
  is too large and returns: no request goes to the Blur API and the entry stays.
\<close>

theorem C3_counterexample:
  "redis_get (redis sample_bidder) ''Bid:Blur:0xabc'' = Some ''0.19'' \<and>
   json_readable sample_api (sample_os_payload ''0.004'') = Some (4 / 1000) \<and>
   (4 / 1000 :: rat) - PROFIT_MARGIN \<le> 0 \<and>
   actions (state_of (processFromOpenSea sample_api ''0xabc'' (sample_os_payload ''0.004'')
                        sample_bidder)) =
     [Process OpenSea ''0xabc'' (sample_os_payload ''0.004''),
      LogMarginTooLarge OpenSea ''0xabc'' (4 / 1000)] \<and>
   redis (state_of (processFromOpenSea sample_api ''0xabc'' (sample_os_payload ''0.004'')
                      sample_bidder)) =
     [(''Bid:Blur:0xabc'', ''0.19'')]"
  by code_simp

text \<open>
  Claim C3, amended. When the observed price less the margin is not positive, the
  calculator returns \<open>0\<close>, its "no bid" value, and the bidder passes the key over: it
  logs that the margin is too large and does nothing else, so no request (neither a
  cancel nor a submit) goes out and an existing ledger entry stays as it is. This holds
  for a price from OpenSea and for a price from Blur.
\<close>

theorem C3_no_bid_skips_the_key:
  "(json_readable api rawJson = Some price \<and> price - PROFIT_MARGIN \<le> 0 \<longrightarrow>
      calculateBidWithMargin price = 0 \<and>
      processFromOpenSea api contract rawJson st =
        Returns (emit (LogMarginTooLarge OpenSea contract price)
                   (emit (Process OpenSea contract rawJson) st)) \<and>
      redis (state_of (processFromOpenSea api contract rawJson st)) = redis st) \<and>
   (blurBestPrice_of api rawString = Some price' \<and> price' - PROFIT_MARGIN \<le> 0 \<longrightarrow>
      calculateBidWithMargin price' = 0 \<and>
      processFromBlur api contract rawString st =
        Returns (emit (LogMarginTooLarge Blur contract price')
                   (emit (Process Blur contract rawString) st)) \<and>
      redis (state_of (processFromBlur api contract rawString st)) = redis st)"
  by (simp add: processFromOpenSea_def processFromBlur_def calculateBidWithMargin_nonpos Let_def)

theorem C3_no_bid_skips_the_key_witness:
  "calculateBidWithMargin (4 / 1000) = 0 \<and>
   processFromOpenSea sample_api ''0xabc'' (sample_os_payload ''0.004'') sample_bidder =
     Returns (emit (LogMarginTooLarge OpenSea ''0xabc'' (4 / 1000))
                (emit (Process OpenSea ''0xabc'' (sample_os_payload ''0.004'')) sample_bidder)) \<and>
   processFromBlur sample_api ''0xabc'' ''0.004'' sample_bidder =
     Returns (emit (LogMarginTooLarge Blur ''0xabc'' (4 / 1000))
                (emit (Process Blur ''0xabc'' ''0.004'') sample_bidder))"
proof -
  have h1: "json_readable sample_api (sample_os_payload ''0.004'') = Some (4 / 1000)"
    by (simp add: sample_api_def sample_json_readable_def)
  have h2: "blurBestPrice_of sample_api ''0.004'' = Some (4 / 1000)"
    by code_simp
  have h3: "(4 / 1000 :: rat) - PROFIT_MARGIN \<le> 0"
    by (simp add: PROFIT_MARGIN_def)
  show ?thesis
    using C3_no_bid_skips_the_key [of sample_api "sample_os_payload ''0.004''" "4 / 1000"
        "''0xabc''" sample_bidder "''0.004''" "4 / 1000"] h1 h2 h3
    by blast
qed

subsection \<open>When a change of a price signal is acted upon\<close>























subsection \<open>The first observation of a key\<close>

lemma blur_events_emit [simp]:
  "blur_events (emit a st) = blur_events st @ (if is_Process_Blur a then [a] else [])"
  by (simp add: blur_events_def)

lemma blur_events_redis_update [simp]:
  "blur_events (st\<lparr>redis := r\<rparr>) = blur_events st"
  by (simp add: blur_events_def)

lemma blur_events_lastSeenOpenSea_update [simp]:
  "blur_events (st\<lparr>lastSeenOpenSea := l\<rparr>) = blur_events st"
  by (simp add: blur_events_def)

lemma blur_events_lastSeenBlur_update [simp]:
  "blur_events (st\<lparr>lastSeenBlur := l\<rparr>) = blur_events st"
  by (simp add: blur_events_def)





lemma initBlurKey_returns: "\<exists>st'. initBlurKey key st = Returns st'"
  by (simp add: initBlurKey_def Let_def split: option.splits)







subsection \<open>The text of an amount\<close>



















section \<open>Properties of the operation queue\<close>

lemma processQueue_fifo:
  "calledOps (processQueue m) @ bidQueue (processQueue m) = calledOps m @ bidQueue m"
  by (simp add: processQueue_def split: list.splits)

lemma processQueue_loggedErrors: "loggedErrors (processQueue m) = loggedErrors m"
  by (simp add: processQueue_def split: list.splits)

lemma settle_fifo:
  "calledOps (settle operation threw m) @ bidQueue (settle operation threw m) =
     calledOps m @ bidQueue m"
  by (simp add: settle_def Let_def processQueue_fifo)

lemma addToQueue_fifo:
  "calledOps (addToQueue operation m) @ bidQueue (addToQueue operation m) =
     calledOps m @ bidQueue m @ [operation]"
  by (simp add: addToQueue_def Let_def processQueue_fifo)

lemma queue_ok_new: "queue_ok new_BidManager"
  by (simp add: queue_ok_def new_BidManager_def)

lemma queue_ok_addToQueue: "queue_ok m \<Longrightarrow> queue_ok (addToQueue operation m)"
  by (auto simp: queue_ok_def addToQueue_def processQueue_def Let_def split: list.splits)

lemma queue_ok_in_flight:
  "queue_ok m \<Longrightarrow> operation \<in> set (inFlight m) \<Longrightarrow> inFlight m = [operation]"
  by (cases "inFlight m") (auto simp: queue_ok_def)

lemma queue_ok_settle:
  assumes "queue_ok m" and "operation \<in> set (inFlight m)"
  shows "queue_ok (settle operation threw m)"
  using assms(1) queue_ok_in_flight [OF assms]
  by (auto simp: queue_ok_def settle_def processQueue_def Let_def split: list.splits)

lemma queue_ok_step: "queue_ok m \<Longrightarrow> queue_ok (queue_step m e)"
  by (cases e) (simp_all add: queue_ok_addToQueue queue_ok_settle)

lemma queue_ok_foldl: "queue_ok m \<Longrightarrow> queue_ok (foldl queue_step m events)"
  by (induction events arbitrary: m) (simp_all add: queue_ok_step)

lemma queue_ok_run: "queue_ok (queue_run events)"
  by (simp add: queue_run_def queue_ok_foldl queue_ok_new)

lemma enqueued_append: "enqueued (events @ events') = enqueued events @ enqueued events'"
  by (induction events rule: enqueued.induct) simp_all

lemma queue_step_fifo:
  "calledOps (queue_step m e) @ bidQueue (queue_step m e) =
     calledOps m @ bidQueue m @ enqueued [e]"
  by (cases e) (simp_all add: addToQueue_fifo settle_fifo)

lemma queue_foldl_fifo:
  "calledOps (foldl queue_step m events) @ bidQueue (foldl queue_step m events) =
     calledOps m @ bidQueue m @ enqueued events"
proof (induction events arbitrary: m)
  case Nil
  show ?case
    by simp
next
  case (Cons e events)
  have "enqueued (e # events) = enqueued [e] @ enqueued events"
    using enqueued_append [of "[e]" events] by simp
  then show ?case
    using Cons.IH [of "queue_step m e"] queue_step_fifo [of m e] by simp
qed

lemma queue_run_fifo:
  "calledOps (queue_run events) @ bidQueue (queue_run events) = enqueued events"
  using queue_foldl_fifo [of new_BidManager events]
  by (simp add: queue_run_def new_BidManager_def)

lemma settle_threw:
  "settle operation True m =
     (settle operation False m)\<lparr>loggedErrors := loggedErrors m @ [operation]\<rparr>"
  by (simp add: settle_def processQueue_def Let_def split: list.splits)

text \<open>Draining from a state in which the queue is in order.\<close>

lemma drain_idle: "inFlight m = [] \<Longrightarrow> drain threw m = m"
  by (subst drain.simps) simp

lemma drain_busy:
  "inFlight m = operation # others \<Longrightarrow>
   drain threw m = drain threw (settle operation (threw operation) m)"
  by (subst drain.simps) simp

lemma drain_steps_idle: "inFlight m = [] \<Longrightarrow> drain_steps threw m = 0"
  by (subst drain_steps.simps) simp

lemma drain_steps_busy:
  "inFlight m = operation # others \<Longrightarrow>
   drain_steps threw m = Suc (drain_steps threw (settle operation (threw operation) m))"
  by (subst drain_steps.simps) simp

lemma settle_counts:
  assumes "queue_ok m" and "inFlight m = operation # others"
  shows "length (inFlight (settle operation threw m)) + length (bidQueue (settle operation threw m))
           + 1 = length (inFlight m) + length (bidQueue m)"
proof -
  have "inFlight m = [operation]"
    using queue_ok_in_flight [OF assms(1), of operation] assms(2) by simp
  then show ?thesis
    by (simp add: settle_def processQueue_def Let_def split: list.splits)
qed

lemma drain_result:
  "queue_ok m \<Longrightarrow>
   queue_ok (drain threw m) \<and> inFlight (drain threw m) = [] \<and>
   calledOps (drain threw m) @ bidQueue (drain threw m) = calledOps m @ bidQueue m \<and>
   drain_steps threw m = length (inFlight m) + length (bidQueue m)"
proof (induction threw m rule: drain.induct)
  case (1 threw m)
  show ?case
  proof (cases "inFlight m")
    case Nil
    then have "bidQueue m = []"
      using "1.prems" by (auto simp: queue_ok_def)
    with Nil "1.prems" show ?thesis
      by (simp add: drain_idle drain_steps_idle)
  next
    case (Cons operation others)
    let ?m' = "settle operation (threw operation) m"
    have ok': "queue_ok ?m'"
      using "1.prems" Cons by (intro queue_ok_settle) simp_all
    have IH: "queue_ok (drain threw ?m') \<and> inFlight (drain threw ?m') = [] \<and>
        calledOps (drain threw ?m') @ bidQueue (drain threw ?m') = calledOps ?m' @ bidQueue ?m' \<and>
        drain_steps threw ?m' = length (inFlight ?m') + length (bidQueue ?m')"
      using "1.IH" [OF Cons ok'] .
    have count: "length (inFlight ?m') + length (bidQueue ?m') + 1 =
                   length (inFlight m) + length (bidQueue m)"
      using settle_counts [OF "1.prems" Cons] .
    show ?thesis
      using IH count settle_fifo [of operation "threw operation" m]
      by (simp add: drain_busy [OF Cons] drain_steps_busy [OF Cons])
  qed
qed

lemma drain_empties:
  assumes "queue_ok m"
  shows "bidQueue (drain threw m) = []" and "\<not> processingQueue (drain threw m)"
  using drain_result [OF assms, of threw] by (auto simp: queue_ok_def)

lemma settle_pending:
  assumes "queue_ok m" and "inFlight m = operation # others"
  shows "inFlight (settle operation threw m) @ bidQueue (settle operation threw m) = bidQueue m"
proof -
  have "inFlight m = [operation]"
    using queue_ok_in_flight [OF assms(1), of operation] assms(2) by simp
  then show ?thesis
    by (simp add: settle_def processQueue_def Let_def split: list.splits)
qed

text \<open>
  \<open>drain\<close> is a run of the queue: the operation in flight and the waiting ones settle in
  that order, each as \<open>threw\<close> says, and nothing is enqueued.
\<close>

lemma drain_is_a_run:
  "queue_ok m \<Longrightarrow>
   drain threw m =
     foldl queue_step m (map (\<lambda>operation. Settled operation (threw operation))
                           (inFlight m @ bidQueue m))"
proof (induction threw m rule: drain.induct)
  case (1 threw m)
  show ?case
  proof (cases "inFlight m")
    case Nil
    then have "bidQueue m = []"
      using "1.prems" by (auto simp: queue_ok_def)
    with Nil show ?thesis
      by (simp add: drain_idle)
  next
    case (Cons operation others)
    let ?m' = "settle operation (threw operation) m"
    have ok': "queue_ok ?m'"
      using "1.prems" Cons by (intro queue_ok_settle) simp_all
    have single: "inFlight m = [operation]"
      using queue_ok_in_flight [OF "1.prems", of operation] Cons by simp
    have "drain threw m = drain threw ?m'"
      by (rule drain_busy [OF Cons])
    also have "\<dots> = foldl queue_step ?m'
                        (map (\<lambda>operation. Settled operation (threw operation))
                           (inFlight ?m' @ bidQueue ?m'))"
      using "1.IH" [OF Cons ok'] .
    also have "inFlight ?m' @ bidQueue ?m' = bidQueue m"
      by (rule settle_pending [OF "1.prems" Cons])
    finally show ?thesis
      by (simp add: single)
  qed
qed

text \<open>
  Claim C8. In every state that calls of \<open>addToQueue\<close> and settlings of operations lead
  to, at most one operation is in flight; the operations called so far, followed by the
  waiting ones, are the enqueued operations in the order of their enqueueing; an
  operation that throws is settled as one that resolves, but for the logged error; and
  when the queue drains, every enqueued operation has been called, in that order,
  whichever of them throw.
\<close>

theorem C8_one_at_a_time_in_order:
  "length (inFlight (queue_run events)) \<le> 1 \<and>
   calledOps (queue_run events) @ bidQueue (queue_run events) = enqueued events \<and>
   settle operation True m =
     (settle operation False m)\<lparr>loggedErrors := loggedErrors m @ [operation]\<rparr> \<and>
   calledOps (drain threw (queue_run events)) = enqueued events"
proof -
  have ok: "queue_ok (queue_run events)"
    by (rule queue_ok_run)
  have "calledOps (drain threw (queue_run events)) @ bidQueue (drain threw (queue_run events)) =
          enqueued events"
    using drain_result [OF ok, of threw] queue_run_fifo [of events] by simp
  then have "calledOps (drain threw (queue_run events)) = enqueued events"
    using drain_empties(1) [OF ok, of threw] by simp
  moreover have "length (inFlight (queue_run events)) \<le> 1"
    using ok by (simp add: queue_ok_def)
  ultimately show ?thesis
    using queue_run_fifo [of events] settle_threw [of operation m] by simp
qed

theorem C8_one_at_a_time_in_order_witness:
  "inFlight (queue_run [Enqueue (5 :: nat), Enqueue 6, Settled 5 True, Enqueue 7]) = [6] \<and>
   calledOps (queue_run [Enqueue (5 :: nat), Enqueue 6, Settled 5 True, Enqueue 7]) = [5, 6] \<and>
   bidQueue (queue_run [Enqueue (5 :: nat), Enqueue 6, Settled 5 True, Enqueue 7]) = [7] \<and>
   loggedErrors (queue_run [Enqueue (5 :: nat), Enqueue 6, Settled 5 True, Enqueue 7]) = [5] \<and>
   calledOps (drain (\<lambda>operation. operation = 6)
                (queue_run [Enqueue (5 :: nat), Enqueue 6, Settled 5 True, Enqueue 7])) = [5, 6, 7]"
proof -
  have run: "queue_run [Enqueue (5 :: nat), Enqueue 6, Settled 5 True, Enqueue 7] =
               \<lparr>bidQueue = [7], processingQueue = True, inFlight = [6], calledOps = [5, 6],
                loggedErrors = [5]\<rparr>"
    by (simp add: queue_run_def new_BidManager_def addToQueue_def settle_def processQueue_def
        Let_def)
  have all: "enqueued [Enqueue (5 :: nat), Enqueue 6, Settled 5 True, Enqueue 7] = [5, 6, 7]"
    by simp
  from C8_one_at_a_time_in_order
         [of "[Enqueue (5 :: nat), Enqueue 6, Settled 5 True, Enqueue 7]" 5 new_BidManager
            "\<lambda>operation. operation = 6"]
  have "calledOps (drain (\<lambda>operation. operation = 6)
          (queue_run [Enqueue (5 :: nat), Enqueue 6, Settled 5 True, Enqueue 7])) = [5, 6, 7]"
    unfolding all by blast
  then show ?thesis
    by (simp add: run)
qed

text \<open>
  Claim C9. From every such state, with no further call of \<open>addToQueue\<close> and every
  operation settling, the drain ends: \<open>drain\<close> is a total function, it is the run in
  which the operation in flight and the waiting ones settle one after the other, and it
  takes as many settlings as there are such operations. It ends with the queue empty,
  nothing in flight and the flag reset, so the next call of \<open>addToQueue\<close> calls its
  operation at once.
\<close>

theorem C9_drain_ends_and_resets:
  "drain threw (queue_run events) =
     foldl queue_step (queue_run events)
       (map (\<lambda>operation. Settled operation (threw operation))
          (inFlight (queue_run events) @ bidQueue (queue_run events))) \<and>
   drain_steps threw (queue_run events) =
     length (inFlight (queue_run events)) + length (bidQueue (queue_run events)) \<and>
   bidQueue (drain threw (queue_run events)) = [] \<and>
   inFlight (drain threw (queue_run events)) = [] \<and>
   \<not> processingQueue (drain threw (queue_run events)) \<and>
   inFlight (addToQueue operation (drain threw (queue_run events))) = [operation] \<and>
   processingQueue (addToQueue operation (drain threw (queue_run events))) \<and>
   calledOps (addToQueue operation (drain threw (queue_run events))) =
     enqueued events @ [operation]"
proof -
  let ?m = "queue_run events"
  let ?d = "drain threw ?m"
  have ok: "queue_ok ?m"
    by (rule queue_ok_run)
  have res: "queue_ok ?d \<and> inFlight ?d = [] \<and>
             calledOps ?d @ bidQueue ?d = calledOps ?m @ bidQueue ?m \<and>
             drain_steps threw ?m = length (inFlight ?m) + length (bidQueue ?m)"
    by (rule drain_result [OF ok])
  have empty: "bidQueue ?d = []" and idle: "\<not> processingQueue ?d"
    using drain_empties [OF ok, of threw] by simp_all
  have called: "calledOps ?d = enqueued events"
    using res empty queue_run_fifo [of events] by simp
  have restart: "addToQueue operation ?d =
                   ?d\<lparr>processingQueue := True, bidQueue := [],
                      inFlight := [operation], calledOps := calledOps ?d @ [operation]\<rparr>"
    using res empty idle by (simp add: addToQueue_def processQueue_def Let_def)
  have rest: "drain_steps threw ?m = length (inFlight ?m) + length (bidQueue ?m) \<and>
      bidQueue ?d = [] \<and> inFlight ?d = [] \<and> \<not> processingQueue ?d \<and>
      inFlight (addToQueue operation ?d) = [operation] \<and>
      processingQueue (addToQueue operation ?d) \<and>
      calledOps (addToQueue operation ?d) = enqueued events @ [operation]"
    using res empty idle called by (simp add: restart)
  show ?thesis
    by (rule conjI [OF drain_is_a_run [OF ok] rest])
qed

theorem C9_drain_ends_and_resets_witness:
  "drain_steps (\<lambda>operation. operation = 6)
     (queue_run [Enqueue (5 :: nat), Enqueue 6, Settled 5 True, Enqueue 7]) = 2 \<and>
   bidQueue (drain (\<lambda>operation. operation = 6)
     (queue_run [Enqueue (5 :: nat), Enqueue 6, Settled 5 True, Enqueue 7])) = [] \<and>
   \<not> processingQueue (drain (\<lambda>operation. operation = 6)
     (queue_run [Enqueue (5 :: nat), Enqueue 6, Settled 5 True, Enqueue 7])) \<and>
   calledOps (addToQueue 8 (drain (\<lambda>operation. operation = 6)
     (queue_run [Enqueue (5 :: nat), Enqueue 6, Settled 5 True, Enqueue 7]))) = [5, 6, 7, 8]"
proof -
  have run: "queue_run [Enqueue (5 :: nat), Enqueue 6, Settled 5 True, Enqueue 7] =
               \<lparr>bidQueue = [7], processingQueue = True, inFlight = [6], calledOps = [5, 6],
                loggedErrors = [5]\<rparr>"
    by (simp add: queue_run_def new_BidManager_def addToQueue_def settle_def processQueue_def
        Let_def)
  have all: "enqueued [Enqueue (5 :: nat), Enqueue 6, Settled 5 True, Enqueue 7] = [5, 6, 7]"
    by simp
  have pending: "length (inFlight (queue_run [Enqueue (5 :: nat), Enqueue 6, Settled 5 True, Enqueue 7])) +
                 length (bidQueue (queue_run [Enqueue (5 :: nat), Enqueue 6, Settled 5 True, Enqueue 7])) = 2"
    by (simp add: run)
  from C9_drain_ends_and_resets
         [of "\<lambda>operation. operation = 6"
            "[Enqueue (5 :: nat), Enqueue 6, Settled 5 True, Enqueue 7]" 8,
          THEN conjunct2]
  show ?thesis
    unfolding all pending by simp
qed

section \<open>Properties of the bid manager's ledger\<close>

lemma new_NftBid_simps [simp]:
  "nb_collection (new_NftBid collection platform amount now nonce) = collection"
  "nb_platform (new_NftBid collection platform amount now nonce) = platform"
  "nb_amount (new_NftBid collection platform amount now nonce) = amount"
  "nb_nonce (new_NftBid collection platform amount now nonce) = nonce"
  "nb_status (new_NftBid collection platform amount now nonce) = Pending"
  "nb_expirationTime (new_NftBid collection platform amount now nonce) = now div 1000 + 86400"
  by (simp_all add: new_NftBid_def)

lemma bids_on_set_bids_on [simp]:
  "bids_on (set_bids_on platform bs pb) platform' =
     (if platform' = platform then bs else bids_on pb platform')"
  by (cases platform; cases platform') (simp_all add: bids_on_def set_bids_on_def)

lemma bids_on_no_bids [simp]: "bids_on \<lparr>pb_blur = [], pb_opensea = []\<rparr> platform = []"
  by (cases platform) (simp_all add: bids_on_def)

lemma getBids_empty [simp]: "getBids Map.empty collection platform = []"
  by (simp add: getBids_def)

lemma getBids_update:
  "getBids (bids(collection \<mapsto> pb)) collection' platform =
     (if collection' = collection then bids_on pb platform else getBids bids collection' platform)"
  by (simp add: getBids_def)

lemma all_pending_empty: "all_pending Map.empty"
  by (simp add: all_pending_def)

text \<open>
  No stored bid is ever \<open>'active'\<close>: the constructor sets \<open>'pending'\<close> and nothing in the
  source assigns another status. So the search for an existing bid finds nothing.
\<close>

lemma getActiveBids_all_pending:
  assumes "all_pending bids"
  shows "getActiveBids bids collection platform now = []"
proof -
  have "list_all (\<lambda>b. nb_status b = Pending) (getBids bids collection platform)"
    using assms by (simp add: all_pending_def)
  then show ?thesis
    by (simp add: getActiveBids_def is_active_at_def filter_empty_conv list_all_iff)
qed

lemma addBid_getBids:
  assumes "validate env now bid = None"
  shows "\<exists>bids'. addBid env now bid bids = Inr bids' \<and>
           (\<forall>collection platform.
              getBids bids' collection platform =
                (if collection = nb_collection bid \<and> platform = nb_platform bid
                 then getBids bids collection platform @ [bid]
                 else getBids bids collection platform))"
  using assms
  by (cases "bids (nb_collection bid)") (auto simp: addBid_def Let_def getBids_def)

lemma submitBid_operation_appends:
  assumes pending: "all_pending bids"
    and valid: "validate env (run_now r)
                  (new_NftBid collection platform amount (run_now r) (run_nonce r)) = None"
    and ok: "run_platform_ok r"
  shows "getBids (state_of (submitBid_operation env platform collection amount r bids))
           collection' platform' =
         (if collection' = collection \<and> platform' = platform
          then getBids bids collection platform @
                 [new_NftBid collection platform amount (run_now r) (run_nonce r)]
          else getBids bids collection' platform')"
proof -
  let ?bid = "new_NftBid collection platform amount (run_now r) (run_nonce r)"
  obtain bids' where added: "addBid env (run_now r) ?bid bids = Inr bids'"
    and after: "\<And>c p. getBids bids' c p =
                  (if c = nb_collection ?bid \<and> p = nb_platform ?bid
                   then getBids bids c p @ [?bid] else getBids bids c p)"
    using addBid_getBids [OF valid, of bids] by blast
  have "submitBid_operation env platform collection amount r bids = Returns bids'"
    using getActiveBids_all_pending [OF pending, of collection platform "run_now r"] ok added
    by (simp add: submitBid_operation_def Let_def)
  then show ?thesis
    using after [of collection' platform'] by simp
qed

lemma open_bids_all_pending:
  "all_pending bids \<Longrightarrow> open_bids bids collection platform = getBids bids collection platform"
  by (simp add: open_bids_def all_pending_def list_all_iff)

lemma all_pending_submitBid_operation:
  assumes "all_pending bids"
  shows "all_pending (state_of (submitBid_operation env platform collection amount r bids))"
proof (cases "run_platform_ok r \<and>
    validate env (run_now r) (new_NftBid collection platform amount (run_now r) (run_nonce r)) = None")
  case True
  then show ?thesis
    using assms submitBid_operation_appends [OF assms, of env r collection platform amount]
    by (simp add: all_pending_def)
next
  case False
  have "submitBid_operation env platform collection amount r bids = Throws bids"
    using False getActiveBids_all_pending [OF assms, of collection platform "run_now r"]
    by (auto simp: submitBid_operation_def Let_def addBid_def split: option.splits)
  with assms show ?thesis
    by simp
qed

lemma findIndex_nonce_bound: "findIndex_nonce nonce bs = Some i \<Longrightarrow> i < length bs"
  by (induction bs arbitrary: i) (auto split: if_splits)

lemma all_pending_cancelBid_operation:
  assumes "all_pending bids"
  shows "all_pending (state_of (cancelBid_operation platform collection nonce bids))"
proof (cases "removeBid collection platform nonce bids")
  case (Inl e)
  with assms show ?thesis
    by (simp add: cancelBid_operation_def)
next
  case (Inr bids')
  then obtain pb i where pb: "bids collection = Some pb"
    and bids': "bids' = bids(collection \<mapsto>
                  set_bids_on platform
                    (take i (bids_on pb platform) @ drop (Suc i) (bids_on pb platform)) pb)"
    by (auto simp: removeBid_def Let_def split: option.splits)
  have "list_all (\<lambda>b. nb_status b = Pending) (getBids bids' c p)" for c p
  proof -
    have before: "list_all (\<lambda>b. nb_status b = Pending) (getBids bids c p)"
      and here: "list_all (\<lambda>b. nb_status b = Pending) (bids_on pb platform)"
      using assms pb by (auto simp: all_pending_def getBids_def split: option.splits)
    have "set (take i (bids_on pb platform) @ drop (Suc i) (bids_on pb platform))
            \<subseteq> set (bids_on pb platform)"
      using set_take_subset [of i "bids_on pb platform"]
        set_drop_subset [of "Suc i" "bids_on pb platform"] by auto
    with here have removed: "list_all (\<lambda>b. nb_status b = Pending)
        (take i (bids_on pb platform) @ drop (Suc i) (bids_on pb platform))"
      unfolding list_all_iff by blast
    show ?thesis
      using before removed pb
      by (auto simp: bids' getBids_update getBids_def)
  qed
  with Inr show ?thesis
    by (simp add: cancelBid_operation_def all_pending_def)
qed

lemma all_pending_run_ledger_op: "all_pending bids \<Longrightarrow> all_pending (run_ledger_op env bids op)"
  by (cases op) (simp_all add: all_pending_submitBid_operation all_pending_cancelBid_operation)

lemma all_pending_foldl:
  "all_pending bids \<Longrightarrow> all_pending (foldl (run_ledger_op env) bids ops)"
  by (induction ops arbitrary: bids) (simp_all add: all_pending_run_ledger_op)

lemma all_pending_run_ledger_ops: "all_pending (run_ledger_ops env ops)"
  by (simp add: run_ledger_ops_def all_pending_foldl all_pending_empty)

text \<open>
  After any sequence of operations, a submit whose bid is valid and whose request goes
  through is recorded beside the open bids that the key already has.
\<close>

lemma submit_after_any_history:
  assumes "validate env (run_now r)
             (new_NftBid collection platform amount (run_now r) (run_nonce r)) = None"
    and "run_platform_ok r"
  shows "open_bids (run_ledger_ops env (ops @ [SubmitBid platform collection amount r]))
           collection platform =
         open_bids (run_ledger_ops env ops) collection platform @
           [new_NftBid collection platform amount (run_now r) (run_nonce r)]"
proof -
  have pending: "all_pending (run_ledger_ops env ops)"
    by (rule all_pending_run_ledger_ops)
  have "run_ledger_ops env (ops @ [SubmitBid platform collection amount r]) =
          state_of (submitBid_operation env platform collection amount r (run_ledger_ops env ops))"
    by (simp add: run_ledger_ops_def)
  then show ?thesis
    using submitBid_operation_appends [OF pending assms, of collection platform]
      all_pending_run_ledger_ops [of env "ops @ [SubmitBid platform collection amount r]"]
    by (simp add: open_bids_all_pending pending)
qed

lemma decimal_value_min_bid: "decimal_value ''0.01'' = Some (1 / 100)"
  by code_simp

lemma decimal_value_max_bid: "decimal_value ''100'' = Some 100"
  by code_simp

lemma validate_sample_bid:
  "now div 1000 < 86400 + now div 1000 \<Longrightarrow>
   validate sample_bid_env now (new_NftBid sample_collection Blur (19 / 100) now nonce) = None"
  by (simp add: validate_def sample_bid_env_def minBidAmount_of_def maxBidAmount_of_def
      default_bid_config_def default_blur_config_def decimal_value_min_bid
      decimal_value_max_bid Let_def)

text \<open>
  Claim C2 says that the ledger holds at most one bid with status pending or active for
  a key. \<open>submitBid\<close> looks for an existing bid of the key before it records a new one,
  but it looks among the bids with status \<open>'active'\<close>, and every stored bid is
  \<open>'pending'\<close>. Two calls of \<open>submitBid('blur', collection, 0.19)\<close>, both valid and both
  accepted by the platform, leave two pending bids under the one key.
\<close>

theorem C2_two_submits_leave_two_pending_bids:
  "open_bids
     (run_ledger_ops sample_bid_env
        [SubmitBid Blur sample_collection (19 / 100) first_run,
         SubmitBid Blur sample_collection (19 / 100) second_run])
     sample_collection Blur =
   [\<lparr>nb_collection = sample_collection, nb_platform = Blur, nb_amount = 19 / 100,
     nb_expirationTime = 86401, nb_nonce = ''0x01'', nb_createdAt = 1000, nb_status = Pending\<rparr>,
    \<lparr>nb_collection = sample_collection, nb_platform = Blur, nb_amount = 19 / 100,
     nb_expirationTime = 86402, nb_nonce = ''0x02'', nb_createdAt = 2000, nb_status = Pending\<rparr>]"
proof -
  have v1: "validate sample_bid_env (run_now first_run)
              (new_NftBid sample_collection Blur (19 / 100) (run_now first_run)
                 (run_nonce first_run)) = None"
    by (rule validate_sample_bid) simp
  have v2: "validate sample_bid_env (run_now second_run)
              (new_NftBid sample_collection Blur (19 / 100) (run_now second_run)
                 (run_nonce second_run)) = None"
    by (rule validate_sample_bid) simp
  have ok1: "run_platform_ok first_run" and ok2: "run_platform_ok second_run"
    by (simp_all add: first_run_def second_run_def)
  have none: "open_bids (run_ledger_ops sample_bid_env []) sample_collection Blur = []"
    by (simp add: run_ledger_ops_def open_bids_def)
  have one: "open_bids (run_ledger_ops sample_bid_env
                 [SubmitBid Blur sample_collection (19 / 100) first_run]) sample_collection Blur =
             [new_NftBid sample_collection Blur (19 / 100) (run_now first_run)
                (run_nonce first_run)]"
    using submit_after_any_history [OF v1 ok1, of "[]"] none by simp
  have "open_bids (run_ledger_ops sample_bid_env
                 [SubmitBid Blur sample_collection (19 / 100) first_run,
                  SubmitBid Blur sample_collection (19 / 100) second_run]) sample_collection Blur =
             [new_NftBid sample_collection Blur (19 / 100) (run_now first_run)
                (run_nonce first_run),
              new_NftBid sample_collection Blur (19 / 100) (run_now second_run)
                (run_nonce second_run)]"
    using submit_after_any_history [OF v2 ok2,
        of "[SubmitBid Blur sample_collection (19 / 100) first_run]"] one by simp
  then show ?thesis
    by (simp add: new_NftBid_def first_run_def second_run_def)
qed

theorem C2_two_submits_leave_two_pending_bids_witness:
  "length (open_bids
     (run_ledger_ops sample_bid_env
        [SubmitBid Blur sample_collection (19 / 100) first_run,
         SubmitBid Blur sample_collection (19 / 100) second_run])
     sample_collection Blur) = 2"
  using C2_two_submits_leave_two_pending_bids by simp

end
